theory Spec2Isabelle
  imports Main "HOL-Library.Product_Lexorder"
begin

section \<open>Python values\<close>

text \<open>
  The server (\<^verbatim>\<open>app.py\<close>, \<^verbatim>\<open>mcp_helper.py\<close>) works on the Python values that a JSON
  document decodes to: \<^verbatim>\<open>None\<close>, \<^verbatim>\<open>bool\<close>, \<^verbatim>\<open>int\<close>, \<^verbatim>\<open>float\<close>, \<^verbatim>\<open>str\<close>, \<^verbatim>\<open>list\<close> and
  \<^verbatim>\<open>dict\<close> with string keys. A float is \<open>m * 2 ^ e\<close>, an infinity or NaN. A dict is an
  association list read with \<open>map_of\<close>.
\<close>

datatype pyfloat = Finite int int | PosInf | NegInf | NaN

datatype json =
    JNull
  | JBool bool
  | JInt int
  | JFloat pyfloat
  | JStr string
  | JArr "json list"
  | JObj "(string \<times> json) list"

text \<open>
  Exceptions are values. \<open>LibError\<close> stands for an exception of any other class raised
  inside pandas, Prophet or the JSON codec; all of them derive from \<^verbatim>\<open>Exception\<close>.
\<close>

datatype pyexn =
    ValueError string
  | AttributeError string
  | TypeError string
  | OverflowError string
  | IndexError string
  | LibError string

fun str_exn :: "pyexn \<Rightarrow> string" where
  "str_exn (ValueError m) = m"
| "str_exn (AttributeError m) = m"
| "str_exn (TypeError m) = m"
| "str_exn (OverflowError m) = m"
| "str_exn (IndexError m) = m"
| "str_exn (LibError m) = m"

fun type_name :: "json \<Rightarrow> string" where
  "type_name JNull = ''NoneType''"
| "type_name (JBool b) = ''bool''"
| "type_name (JInt i) = ''int''"
| "type_name (JFloat f) = ''float''"
| "type_name (JStr s) = ''str''"
| "type_name (JArr xs) = ''list''"
| "type_name (JObj kv) = ''dict''"

text \<open>
  \<^verbatim>\<open>v.get(key, default)\<close>: only a dict has the method; on any other value the attribute
  lookup raises \<^verbatim>\<open>AttributeError\<close>.
\<close>

fun py_get :: "json \<Rightarrow> string \<Rightarrow> json \<Rightarrow> pyexn + json" where
  "py_get (JObj kv) k d = Inr (case map_of kv k of None \<Rightarrow> d | Some v \<Rightarrow> v)"
| "py_get v k d =
     Inl (AttributeError ([CHR 39] @ type_name v @ [CHR 39] @ '' object has no attribute ''
            @ [CHR 39] @ ''get'' @ [CHR 39]))"

text \<open>\<^verbatim>\<open>s.startswith(p)\<close> and \<^verbatim>\<open>s.split(c)\<close> for a one-character separator.\<close>

definition startswith :: "string \<Rightarrow> string \<Rightarrow> bool" where
  "startswith s p = (take (length p) s = p)"

fun split_sep :: "char \<Rightarrow> string \<Rightarrow> string list" where
  "split_sep c [] = [[]]"
| "split_sep c (x # xs) =
     (if x = c then [] # split_sep c xs
      else (case split_sep c xs of
              [] \<Rightarrow> [[x]]
            | w # ws \<Rightarrow> (x # w) # ws))"

text \<open>\<^verbatim>\<open>xs[i]\<close> for a non-negative index.\<close>

definition py_index :: "'a list \<Rightarrow> nat \<Rightarrow> pyexn + 'a" where
  "py_index xs i = (if i < length xs then Inr (xs ! i) else Inl (IndexError ''list index out of range''))"

text \<open>Decimal numerals, as \<^verbatim>\<open>str\<close> of an int and the \<^verbatim>\<open>strftime\<close> fields print them.\<close>

fun dec :: "nat \<Rightarrow> string" where
  "dec n = (if n < 10 then [char_of (48 + n)] else dec (n div 10) @ [char_of (48 + n mod 10)])"

declare dec.simps [simp del]

definition str_int :: "int \<Rightarrow> string" where
  "str_int i = (if i < 0 then CHR ''-'' # dec (nat (- i)) else dec (nat i))"

definition zpad :: "nat \<Rightarrow> nat \<Rightarrow> string" where
  "zpad w n = replicate (w - length (dec n)) CHR ''0'' @ dec n"

section \<open>Timestamps\<close>

text \<open>
  A pandas timestamp, by its fields (year, month, day, hour, minute, second, nanosecond);
  the lexicographic order of the fields is the chronological order. \<open>None\<close> in a column
  is \<^verbatim>\<open>NaT\<close>.

  The source prints timestamps with the format \<^verbatim>\<open>%Y-%m-%dT%H:%M:%S\<close> in two ways, which
  differ on the year. \<open>strftime\<close> is \<^verbatim>\<open>Timestamp.strftime\<close> on one timestamp, as in
  \<^verbatim>\<open>df["ds"].min().strftime(...)\<close>: it prints the year as a plain decimal numeral, so the
  year 999 has three digits. \<open>dt_strftime\<close> is \<^verbatim>\<open>Series.dt.strftime\<close> on a column, as in
  \<^verbatim>\<open>out["ds"].dt.strftime(...)\<close>: it pads the year with zeros to four digits. Both pad
  every other field to two digits.
\<close>

type_synonym timestamp = "nat \<times> nat \<times> nat \<times> nat \<times> nat \<times> nat \<times> nat"

fun strftime :: "timestamp \<Rightarrow> string" where
  "strftime (y, mo, d, h, mi, s, ns) =
     dec y @ ''-'' @ zpad 2 mo @ ''-'' @ zpad 2 d @ ''T'' @
     zpad 2 h @ '':'' @ zpad 2 mi @ '':'' @ zpad 2 s"

fun dt_strftime :: "timestamp \<Rightarrow> string" where
  "dt_strftime (y, mo, d, h, mi, s, ns) =
     zpad 4 y @ ''-'' @ zpad 2 mo @ ''-'' @ zpad 2 d @ ''T'' @
     zpad 2 h @ '':'' @ zpad 2 mi @ '':'' @ zpad 2 s"

text \<open>\<^verbatim>\<open>NaT.strftime(...)\<close> raises.\<close>

fun strftime_opt :: "timestamp option \<Rightarrow> pyexn + string" where
  "strftime_opt None = Inl (ValueError ''NaTType does not support strftime'')"
| "strftime_opt (Some t) = Inr (strftime t)"

text \<open>
  \<^verbatim>\<open>Series.min()\<close> and \<^verbatim>\<open>Series.max()\<close> skip \<^verbatim>\<open>NaT\<close>; on a column with no timestamp
  they give \<^verbatim>\<open>NaT\<close>.
\<close>

definition present :: "timestamp option list \<Rightarrow> timestamp list" where
  "present col = concat (map (\<lambda>c. case c of None \<Rightarrow> [] | Some t \<Rightarrow> [t]) col)"

definition col_min :: "timestamp option list \<Rightarrow> timestamp option" where
  "col_min col = (case present col of [] \<Rightarrow> None | t # ts \<Rightarrow> Some (fold min ts t))"

definition col_max :: "timestamp option list \<Rightarrow> timestamp option" where
  "col_max col = (case present col of [] \<Rightarrow> None | t # ts \<Rightarrow> Some (fold max ts t))"

section \<open>The environment: configuration and libraries\<close>

text \<open>
  What the two source files take from outside the repository: the process environment
  (\<^verbatim>\<open>os.getenv('MCP_TOKEN')\<close>), the JSON codec, built-in conversions whose result depends
  on the text of a string or on \<^verbatim>\<open>repr\<close>, pandas and Prophet. Each is a field of the
  environment, and every theorem below holds for every environment.

  \<^item> \<open>json_loads s\<close> is \<^verbatim>\<open>json.loads(s)\<close>, \<open>None\<close> when it raises.
  \<^item> \<open>json_dumps v\<close> is \<^verbatim>\<open>json.dumps(v)\<close>.
  \<^item> \<open>int_of_str s\<close> is \<^verbatim>\<open>int(s)\<close> on a string, \<open>None\<close> when it raises.
  \<^item> \<open>py_repr v\<close> is \<^verbatim>\<open>repr(v)\<close>.
  \<^item> \<open>DataFrame_other ds y\<close> is \<^verbatim>\<open>pd.DataFrame({'ds': ds, 'y': y})\<close> when \<open>ds\<close> and
    \<open>y\<close> are not both lists: the two columns, or the exception.
  \<^item> \<open>to_datetime col\<close> is \<^verbatim>\<open>pd.to_datetime\<close> on a column: the timestamps, or the
    exception when an entry cannot be parsed.
  \<^item> \<open>prophet ds y f\<close> is the body of the \<^verbatim>\<open>try\<close> block: fitting the model on the frame,
    \<^verbatim>\<open>make_future_dataframe(periods=f)\<close> and \<^verbatim>\<open>predict\<close>; the forecast rows
    (ds, yhat, yhat_lower, yhat_upper), or the exception.
\<close>

type_synonym forecast_row = "timestamp \<times> pyfloat \<times> pyfloat \<times> pyfloat"

record env =
  MCP_TOKEN :: "string option"
  json_loads :: "string \<Rightarrow> json option"
  json_dumps :: "json \<Rightarrow> string"
  int_of_str :: "string \<Rightarrow> int option"
  py_repr :: "json \<Rightarrow> string"
  DataFrame_other :: "json \<Rightarrow> json \<Rightarrow> pyexn + (json list \<times> json list)"
  to_datetime :: "json list \<Rightarrow> pyexn + timestamp option list"
  prophet :: "timestamp option list \<Rightarrow> json list \<Rightarrow> int \<Rightarrow> pyexn + forecast_row list"

text \<open>\<^verbatim>\<open>str(v)\<close>, as an f-string interpolates a value.\<close>

fun py_str :: "env \<Rightarrow> json \<Rightarrow> string" where
  "py_str env (JStr s) = s"
| "py_str env JNull = ''None''"
| "py_str env (JBool b) = (if b then ''True'' else ''False'')"
| "py_str env (JInt i) = str_int i"
| "py_str env v = py_repr env v"

text \<open>\<^verbatim>\<open>int(v)\<close>: a float is truncated towards zero.\<close>

fun py_int :: "env \<Rightarrow> json \<Rightarrow> pyexn + int" where
  "py_int env (JInt i) = Inr i"
| "py_int env (JBool b) = Inr (if b then 1 else 0)"
| "py_int env (JFloat (Finite m e)) =
     Inr (if 0 \<le> e then m * 2 ^ nat e
          else if 0 \<le> m then m div 2 ^ nat (- e)
          else - ((- m) div 2 ^ nat (- e)))"
| "py_int env (JFloat NaN) = Inl (ValueError ''cannot convert float NaN to integer'')"
| "py_int env (JFloat f) = Inl (OverflowError ''cannot convert float infinity to integer'')"
| "py_int env (JStr s) =
     (case int_of_str env s of
        Some i \<Rightarrow> Inr i
      | None \<Rightarrow> Inl (ValueError (''invalid literal for int() with base 10: '' @ py_repr env (JStr s))))"
| "py_int env v =
     Inl (TypeError (''int() argument must be a string, a bytes-like object or a real number, not ''
            @ [CHR 39] @ type_name v @ [CHR 39]))"

text \<open>
  \<^verbatim>\<open>pd.DataFrame({'ds': ds, 'y': y})\<close>: two lists of one length are the two columns, two
  lists of different lengths are refused.
\<close>

definition DataFrame :: "env \<Rightarrow> json \<Rightarrow> json \<Rightarrow> pyexn + (json list \<times> json list)" where
  "DataFrame env ds y =
     (case (ds, y) of
        (JArr xs, JArr ys) \<Rightarrow>
          if length xs = length ys then Inr (xs, ys)
          else Inl (ValueError ''All arrays must be of the same length'')
      | _ \<Rightarrow> DataFrame_other env ds y)"

section \<open>mcp\_helper.py\<close>

definition handle_initialize :: json where
  "handle_initialize =
     JObj [(''protocolVersion'', JStr ''2024-11-05''),
           (''serverInfo'', JObj [(''name'', JStr ''prophet_mcp''), (''version'', JStr ''0.1.0'')]),
           (''capabilities'', JObj [(''tools'', JObj [])])]"

definition handle_tools_list :: json where
  "handle_tools_list =
     JObj [(''tools'', JArr [
       JObj [(''name'', JStr ''forecast_time_series''),
             (''description'', JStr ''Runs a simple Prophet forecast on ds/y and returns ds + yhat/yhat_lower/yhat_upper.''),
             (''annotations'', JObj [(''read_only'', JBool False)]),
             (''inputSchema'', JObj [
                (''type'', JStr ''object''),
                (''properties'', JObj [
                   (''ds'', JObj [(''type'', JStr ''array''),
                                  (''items'', JObj [(''type'', JStr ''string'')]),
                                  (''description'', JStr ''List of dates in ISO format (e.g., YYYY-MM-DD).'')]),
                   (''y'', JObj [(''type'', JStr ''array''),
                                 (''items'', JObj [(''type'', JStr ''number'')]),
                                 (''description'', JStr ''List of numeric values aligned with ds.'')]),
                   (''periods'', JObj [(''type'', JStr ''integer''),
                                       (''description'', JStr ''Number of future periods to forecast.''),
                                       (''default'', JInt 10)])]),
                (''required'', JArr [JStr ''ds'', JStr ''y'']),
                (''additionalProperties'', JBool False)])]])]"

text \<open>One row of \<^verbatim>\<open>out.to_dict(orient="records")\<close>, its \<^verbatim>\<open>ds\<close> already formatted.\<close>

fun record_of_row :: "forecast_row \<Rightarrow> json" where
  "record_of_row (t, yhat, lo, hi) =
     JObj [(''ds'', JStr (dt_strftime t)), (''yhat'', JFloat yhat),
           (''yhat_lower'', JFloat lo), (''yhat_upper'', JFloat hi)]"

text \<open>
  \<^verbatim>\<open>forecast_time_series(arguments)\<close>. The reads of the arguments, \<^verbatim>\<open>int(...)\<close>, the frame
  and \<^verbatim>\<open>pd.to_datetime\<close> come before the \<^verbatim>\<open>try\<close> block, so their exceptions leave the
  function; an exception of the block is returned as \<^verbatim>\<open>{"error": str(e)}\<close>; the
  formatting of the minimum and maximum comes after it. The \<^verbatim>\<open>print\<close> calls are left
  out.
\<close>

definition forecast_time_series :: "env \<Rightarrow> json \<Rightarrow> pyexn + json" where
  "forecast_time_series env arguments =
     (case py_get arguments ''ds'' JNull of Inl e \<Rightarrow> Inl e | Inr ds \<Rightarrow>
     (case py_get arguments ''y'' JNull of Inl e \<Rightarrow> Inl e | Inr y \<Rightarrow>
     (case py_get arguments ''periods'' (JInt 10) of Inl e \<Rightarrow> Inl e | Inr p \<Rightarrow>
     (case py_int env p of Inl e \<Rightarrow> Inl e | Inr f \<Rightarrow>
     (case DataFrame env ds y of Inl e \<Rightarrow> Inl e | Inr df \<Rightarrow>
     (case to_datetime env (fst df) of Inl e \<Rightarrow> Inl e | Inr col \<Rightarrow>
     (case prophet env col (snd df) f of
        Inl e \<Rightarrow> Inr (JObj [(''error'', JStr (str_exn e))])
      | Inr forecast \<Rightarrow>
     (case strftime_opt (col_min col) of Inl e \<Rightarrow> Inl e | Inr start \<Rightarrow>
     (case strftime_opt (col_max col) of Inl e \<Rightarrow> Inl e | Inr stop \<Rightarrow>
        Inr (JObj [(''meta'', JObj [(''f'', JInt f),
                                    (''n_history'', JInt (int (length (fst df)))),
                                    (''start'', JStr start),
                                    (''end'', JStr stop)]),
                   (''forecast'', JArr (map record_of_row forecast))]))))))))))"

definition text_content :: "string \<Rightarrow> json" where
  "text_content t = JArr [JObj [(''type'', JStr ''text''), (''text'', JStr t)]]"

definition handle_tool_call :: "env \<Rightarrow> json \<Rightarrow> pyexn + json" where
  "handle_tool_call env params =
     (case py_get params ''name'' JNull of Inl e \<Rightarrow> Inl e | Inr tool_name \<Rightarrow>
     (case py_get params ''arguments'' (JObj []) of Inl e \<Rightarrow> Inl e | Inr arguments \<Rightarrow>
     (case (case arguments of JStr s \<Rightarrow> json_loads env s | _ \<Rightarrow> Some arguments) of
        None \<Rightarrow>
          Inr (JObj [(''isError'', JBool True),
                     (''content'', text_content ''Invalid arguments: expected object or JSON string.'')])
      | Some decoded \<Rightarrow>
          (if tool_name = JStr ''forecast_time_series'' then
             (case forecast_time_series env decoded of
                Inl e \<Rightarrow> Inl e
              | Inr data \<Rightarrow> Inr (JObj [(''content'', text_content (json_dumps env data))]))
           else
             Inr (JObj [(''isError'', JBool True),
                        (''content'', text_content (''Tool not found: '' @ py_str env tool_name))])))))"

definition handle_request :: "env \<Rightarrow> json \<Rightarrow> json \<Rightarrow> pyexn + json" where
  "handle_request env method params =
     (if method = JStr ''initialize'' then Inr handle_initialize
      else if method = JStr ''tools/list'' then Inr handle_tools_list
      else if method = JStr ''tools/call'' then handle_tool_call env params
      else Inl (ValueError (''Method not found: '' @ py_str env method)))"

section \<open>app.py\<close>

text \<open>
  The Flask request, by what the endpoint reads of it: the result of
  \<^verbatim>\<open>request.get_json(force=True)\<close> (the decoded body, or the exception) and
  \<^verbatim>\<open>request.headers.get('Authorization')\<close>. A response is a body and a status; the body
  is the value handed to \<^verbatim>\<open>jsonify\<close>, or a text.
\<close>

record request =
  get_json :: "pyexn + json"
  authorization :: "string option"

datatype body = Jsonify json | Text string

type_synonym response = "body \<times> nat"

definition error_envelope :: "int \<Rightarrow> string \<Rightarrow> json \<Rightarrow> json" where
  "error_envelope code message request_id =
     JObj [(''jsonrpc'', JStr ''2.0''),
           (''error'', JObj [(''code'', JInt code), (''message'', JStr message)]),
           (''id'', request_id)]"

definition result_envelope :: "json \<Rightarrow> json \<Rightarrow> json" where
  "result_envelope result request_id =
     JObj [(''jsonrpc'', JStr ''2.0''), (''result'', result), (''id'', request_id)]"

text \<open>
  Lines 79 to 127 of \<^verbatim>\<open>mcp_endpoint\<close>, reached once the token has been accepted: the
  notification short-circuit, the call of the router, and the handler of its exceptions.
  The logging calls are left out.
\<close>

definition mcp_respond :: "env \<Rightarrow> json \<Rightarrow> json \<Rightarrow> json \<Rightarrow> response" where
  "mcp_respond env method params request_id =
     (if request_id = JNull then
        (if method = JStr ''notifications/initialized''
            \<or> (case method of JStr m \<Rightarrow> startswith m ''notifications/'' | _ \<Rightarrow> False)
         then (Text '''', 204)
         else (Text '''', 204))
      else
        (case handle_request env method params of
           Inr result \<Rightarrow> (Jsonify (result_envelope result request_id), 200)
         | Inl e \<Rightarrow>
             if method = JStr ''tools/call'' then
               (Jsonify (result_envelope
                  (JObj [(''isError'', JBool True),
                         (''content'', text_content (''Internal tool error: '' @ str_exn e))])
                  request_id), 200)
             else
               (Jsonify (error_envelope (- 32603) (''Internal error: '' @ str_exn e) request_id), 200)))"

text \<open>
  \<^verbatim>\<open>mcp_endpoint()\<close>. \<open>Inl\<close> is an exception that leaves the view function (Flask then
  answers 500): the reads of \<^verbatim>\<open>data\<close> are outside every \<^verbatim>\<open>try\<close>.
\<close>

definition mcp_endpoint :: "env \<Rightarrow> request \<Rightarrow> pyexn + response" where
  "mcp_endpoint env req =
     (case get_json req of
        Inl e \<Rightarrow> Inr (Jsonify (error_envelope (- 32700) (''Parse error: '' @ str_exn e) JNull), 200)
      | Inr data \<Rightarrow>
     (case py_get data ''method'' JNull of Inl e \<Rightarrow> Inl e | Inr method \<Rightarrow>
     (case py_get data ''params'' (JObj []) of Inl e \<Rightarrow> Inl e | Inr params \<Rightarrow>
     (case py_get data ''id'' JNull of Inl e \<Rightarrow> Inl e | Inr request_id \<Rightarrow>
     (case (case authorization req of
              None \<Rightarrow> None
            | Some h \<Rightarrow> (if h = [] \<or> \<not> startswith h ''Bearer '' then None else Some h)) of
        None \<Rightarrow>
          Inr (Jsonify (error_envelope (- 32000)
                 ''Unauthorized: Missing or invalid Authorization header'' request_id), 401)
      | Some auth_header \<Rightarrow>
     (case py_index (split_sep CHR '' '' auth_header) 1 of Inl e \<Rightarrow> Inl e | Inr token \<Rightarrow>
        (if Some token \<noteq> MCP_TOKEN env then
           Inr (Jsonify (error_envelope (- 32000) ''Unauthorized: Invalid MCP Auth token'' request_id), 401)
         else Inr (mcp_respond env method params request_id))))))))"

section \<open>Reading a value\<close>

text \<open>
  The statements below read decoded values the way a client does: \<open>field\<close> is the
  lookup of \<^verbatim>\<open>dict.get\<close> on the entries of a dict, \<open>json_path\<close> follows member names down
  a value, and \<open>authorized\<close> says that the header passes both checks of the endpoint
  (it starts with \<^verbatim>\<open>Bearer \<close> and its second segment is the configured secret).
\<close>

definition field :: "(string \<times> json) list \<Rightarrow> string \<Rightarrow> json \<Rightarrow> json" where
  "field kv k d = (case map_of kv k of None \<Rightarrow> d | Some v \<Rightarrow> v)"

fun member_of :: "json \<Rightarrow> string \<Rightarrow> json option" where
  "member_of (JObj kv) k = map_of kv k"
| "member_of v k = None"

fun json_path :: "json \<Rightarrow> string list \<Rightarrow> json option" where
  "json_path v [] = Some v"
| "json_path v (k # ks) = (case member_of v k of None \<Rightarrow> None | Some w \<Rightarrow> json_path w ks)"

text \<open>The value of a decimal digit.\<close>

definition digit_of :: "char \<Rightarrow> nat option" where
  "digit_of c = (let n = (of_char c :: nat) in if 48 \<le> n \<and> n \<le> 57 then Some (n - 48) else None)"

text \<open>
  The shape \<^verbatim>\<open>YYYY-MM-DDTHH:MM:SS\<close> of a string, and the timestamps whose fields have the
  widths of that shape: a year of four digits (1000 to 9999) and every other field below
  100. A timestamp before the year 1000 is not among them.
\<close>

definition valid_fields :: "timestamp \<Rightarrow> bool" where
  "valid_fields t =
     (case t of (y, mo, d, h, mi, s, ns) \<Rightarrow>
        1000 \<le> y \<and> y < 10000 \<and> mo < 100 \<and> d < 100 \<and> h < 100 \<and> mi < 100 \<and> s < 100)"


text \<open>
  The arguments of a tool call as \<^verbatim>\<open>handle_tool_call\<close> decodes them (a string is read as
  JSON, any other value is taken as it is); \<open>None\<close> when the string is not JSON.
\<close>

definition decoded_arguments :: "env \<Rightarrow> (string \<times> json) list \<Rightarrow> json option" where
  "decoded_arguments env ps =
     (case field ps ''arguments'' (JObj []) of JStr s \<Rightarrow> json_loads env s | a \<Rightarrow> Some a)"

definition authorized :: "env \<Rightarrow> request \<Rightarrow> bool" where
  "authorized env req =
     (case authorization req of
        None \<Rightarrow> False
      | Some h \<Rightarrow>
          startswith h ''Bearer '' \<and>
          (case py_index (split_sep CHR '' '' h) 1 of
             Inl e \<Rightarrow> False
           | Inr token \<Rightarrow> MCP_TOKEN env = Some token))"

section \<open>An environment for the examples\<close>

text \<open>
  The examples run in one fixed environment. Its secret is \<^verbatim>\<open>s3cret\<close>; its library
  functions are test doubles that answer the calls the examples make: a decoder that
  knows the documents \<^verbatim>\<open>{}\<close> and \<^verbatim>\<open>[]\<close> and refuses every other text, a compact encoder, a
  reader of unsigned decimal numerals, a reader of dates written \<^verbatim>\<open>YYYY-MM-DD\<close>, and a
  model that refuses fewer than two rows and otherwise predicts zero at every date of
  the history and at \<open>f\<close> further copies of its last date. No theorem depends on them:
  each is proved for every environment and only instantiated here.
\<close>

definition ex_loads :: "string \<Rightarrow> json option" where
  "ex_loads s = (if s = ''{}'' then Some (JObj []) else if s = ''[]'' then Some (JArr []) else None)"

fun ex_float :: "pyfloat \<Rightarrow> string" where
  "ex_float (Finite m e) = str_int (m * 2 ^ nat e) @ ''.0''"
| "ex_float PosInf = ''Infinity''"
| "ex_float NegInf = ''-Infinity''"
| "ex_float NaN = ''NaN''"

fun ex_dumps :: "json \<Rightarrow> string"
  and ex_dumps_list :: "json list \<Rightarrow> string"
  and ex_dumps_items :: "(string \<times> json) list \<Rightarrow> string" where
  "ex_dumps JNull = ''null''"
| "ex_dumps (JBool b) = (if b then ''true'' else ''false'')"
| "ex_dumps (JInt i) = str_int i"
| "ex_dumps (JFloat f) = ex_float f"
| "ex_dumps (JStr s) = [CHR 34] @ s @ [CHR 34]"
| "ex_dumps (JArr xs) = ''['' @ ex_dumps_list xs @ '']''"
| "ex_dumps (JObj kv) = ''{'' @ ex_dumps_items kv @ ''}''"
| "ex_dumps_list [] = []"
| "ex_dumps_list [x] = ex_dumps x"
| "ex_dumps_list (x # y # ys) = ex_dumps x @ '', '' @ ex_dumps_list (y # ys)"
| "ex_dumps_items [] = []"
| "ex_dumps_items [(k, v)] = [CHR 34] @ k @ [CHR 34] @ '': '' @ ex_dumps v"
| "ex_dumps_items ((k, v) # p # ps) =
     [CHR 34] @ k @ [CHR 34] @ '': '' @ ex_dumps v @ '', '' @ ex_dumps_items (p # ps)"

fun numeral_of :: "nat \<Rightarrow> string \<Rightarrow> nat option" where
  "numeral_of acc [] = Some acc"
| "numeral_of acc (c # cs) =
     (case digit_of c of None \<Rightarrow> None | Some d \<Rightarrow> numeral_of (10 * acc + d) cs)"

definition ex_int_of_str :: "string \<Rightarrow> int option" where
  "ex_int_of_str s = (if s = [] then None else map_option int (numeral_of 0 s))"

definition ex_date :: "json \<Rightarrow> timestamp option" where
  "ex_date v =
     (case v of
        JStr s \<Rightarrow>
          (if length s = 10 \<and> s ! 4 = CHR ''-'' \<and> s ! 7 = CHR ''-'' then
             (case (numeral_of 0 (take 4 s), numeral_of 0 (take 2 (drop 5 s)), numeral_of 0 (drop 8 s)) of
                (Some y, Some m, Some d) \<Rightarrow> Some (y, m, d, 0, 0, 0, 0)
              | _ \<Rightarrow> None)
           else None)
      | _ \<Rightarrow> None)"

definition ex_to_datetime :: "json list \<Rightarrow> pyexn + timestamp option list" where
  "ex_to_datetime col =
     (if list_all (\<lambda>v. ex_date v \<noteq> None) col then Inr (map ex_date col)
      else Inl (LibError ''Unknown datetime string format''))"

definition ex_prophet :: "timestamp option list \<Rightarrow> json list \<Rightarrow> int \<Rightarrow> pyexn + forecast_row list" where
  "ex_prophet ds y f =
     (case present ds of
        t # u # ts \<Rightarrow>
          Inr (map (\<lambda>d. (d, Finite 0 0, Finite 0 0, Finite 0 0))
                 (present ds @ replicate (nat f) (last (present ds))))
      | _ \<Rightarrow> Inl (ValueError ''Dataframe has less than 2 non-NaN rows.''))"

definition ex_env :: env where
  "ex_env =
     \<lparr>MCP_TOKEN = Some ''s3cret'',
      json_loads = ex_loads,
      json_dumps = ex_dumps,
      int_of_str = ex_int_of_str,
      py_repr = ex_dumps,
      DataFrame_other = (\<lambda>ds y. Inl (ValueError ''If using all scalar values, you must pass an index'')),
      to_datetime = ex_to_datetime,
      prophet = ex_prophet\<rparr>"









definition ex_request :: "json \<Rightarrow> json \<Rightarrow> request" where
  "ex_request method params =
     \<lparr>get_json = Inr (JObj [(''jsonrpc'', JStr ''2.0''), (''method'', method),
                            (''params'', params), (''id'', JInt 7)]),
      authorization = Some ''Bearer s3cret''\<rparr>"

definition ex_call :: "json \<Rightarrow> json \<Rightarrow> request" where
  "ex_call tool_name arguments =
     ex_request (JStr ''tools/call'') (JObj [(''name'', tool_name), (''arguments'', arguments)])"

text \<open>A notification (no \<^verbatim>\<open>id\<close>), with the given Authorization header.\<close>

definition ex_notification :: "string option \<Rightarrow> request" where
  "ex_notification header =
     \<lparr>get_json = Inr (JObj [(''jsonrpc'', JStr ''2.0''), (''method'', JStr ''notifications/initialized'')]),
      authorization = header\<rparr>"

section \<open>The Authorization header\<close>

lemma split_sep_not_Nil: "split_sep c s \<noteq> []"
  by (induction s) (auto split: list.splits)

lemma split_sep_segment: "c \<notin> set w \<Longrightarrow> split_sep c (w @ c # r) = w # split_sep c r"
  by (induction w) auto

lemma split_sep_whole: "c \<notin> set w \<Longrightarrow> split_sep c w = [w]"
  by (induction w) auto

lemma startswith_append: "startswith h p \<Longrightarrow> h = p @ drop (length p) h"
  unfolding startswith_def by (metis append_take_drop_id)

lemma split_Bearer: "split_sep CHR '' '' (''Bearer '' @ r) = ''Bearer'' # split_sep CHR '' '' r"
  using split_sep_segment [of "CHR '' ''" "''Bearer''" r] by simp

text \<open>
  After the \<^verbatim>\<open>startswith\<close> check the split has at least two segments, so the index 1
  never raises.
\<close>

lemma token_defined:
  assumes "startswith h ''Bearer ''"
  shows "py_index (split_sep CHR '' '' h) 1 = Inr (split_sep CHR '' '' h ! 1)"
proof -
  obtain r where r: "h = ''Bearer '' @ r"
    using startswith_append [OF assms] by blast
  obtain w ws where "split_sep CHR '' '' r = w # ws"
    using split_sep_not_Nil by (cases "split_sep CHR '' '' r") auto
  then have "split_sep CHR '' '' h = ''Bearer'' # w # ws"
    using r split_Bearer [of r] by simp
  then show ?thesis by (simp add: py_index_def)
qed

lemma startswith_nonempty: "startswith h ''Bearer '' \<Longrightarrow> h \<noteq> []"
  by (auto simp: startswith_def)

section \<open>The endpoint, case by case\<close>

lemma endpoint_token:
  assumes "get_json req = Inr (JObj kv)" and "authorization req = Some h"
    and "startswith h ''Bearer ''"
  shows "mcp_endpoint env req =
           (if Some (split_sep CHR '' '' h ! 1) \<noteq> MCP_TOKEN env then
              Inr (Jsonify (error_envelope (- 32000) ''Unauthorized: Invalid MCP Auth token''
                     (field kv ''id'' JNull)), 401)
            else Inr (mcp_respond env (field kv ''method'' JNull) (field kv ''params'' (JObj []))
                        (field kv ''id'' JNull)))"
  using assms token_defined [OF assms(3)] startswith_nonempty [OF assms(3)]
  by (simp add: mcp_endpoint_def field_def)

lemma endpoint_no_header:
  assumes "get_json req = Inr (JObj kv)"
    and "authorization req = None \<or> (\<exists>h. authorization req = Some h \<and> \<not> startswith h ''Bearer '')"
  shows "mcp_endpoint env req =
           Inr (Jsonify (error_envelope (- 32000)
                  ''Unauthorized: Missing or invalid Authorization header'' (field kv ''id'' JNull)), 401)"
  using assms by (auto simp: mcp_endpoint_def field_def)

lemma endpoint_authorized:
  assumes "get_json req = Inr (JObj kv)" and "authorized env req"
  shows "mcp_endpoint env req =
           Inr (mcp_respond env (field kv ''method'' JNull) (field kv ''params'' (JObj []))
                  (field kv ''id'' JNull))"
proof -
  from assms(2) obtain h where h: "authorization req = Some h" "startswith h ''Bearer ''"
    and t: "(case py_index (split_sep CHR '' '' h) 1 of Inl e \<Rightarrow> False | Inr token \<Rightarrow> MCP_TOKEN env = Some token)"
    by (auto simp: authorized_def split: option.splits)
  from t token_defined [OF h(2)] have "MCP_TOKEN env = Some (split_sep CHR '' '' h ! 1)" by simp
  then show ?thesis using endpoint_token [OF assms(1) h, of env] by simp
qed

lemma respond_envelope:
  assumes "i \<noteq> JNull"
  shows "\<exists>fields. mcp_respond env method params i = (Jsonify (JObj fields), 200)
           \<and> map_of fields ''id'' = Some i
           \<and> map_of fields ''jsonrpc'' = Some (JStr ''2.0'')
           \<and> ((map_of fields ''result'' = None) \<noteq> (map_of fields ''error'' = None))"
  using assms
  by (cases "handle_request env method params")
     (simp_all add: mcp_respond_def result_envelope_def error_envelope_def)

text \<open>The example requests carry the token of the example environment.\<close>

lemma ex_request_authorized: "authorized ex_env (ex_request method params)"
  by (simp add: authorized_def ex_request_def ex_env_def startswith_def py_index_def)

lemma ex_request_body:
  "get_json (ex_request method params) =
     Inr (JObj [(''jsonrpc'', JStr ''2.0''), (''method'', method), (''params'', params), (''id'', JInt 7)])"
  by (simp add: ex_request_def)

lemma ex_notification_body:
  "get_json (ex_notification header) =
     Inr (JObj [(''jsonrpc'', JStr ''2.0''), (''method'', JStr ''notifications/initialized'')])"
  by (simp add: ex_notification_def)

lemma split_Bearer_token:
  assumes "CHR '' '' \<notin> set tok"
  shows "split_sep CHR '' '' (''Bearer '' @ tok @ '' '' @ rest) = ''Bearer'' # tok # split_sep CHR '' '' rest"
    and "split_sep CHR '' '' (''Bearer '' @ tok) = [''Bearer'', tok]"
  using split_Bearer [of "tok @ '' '' @ rest"] split_sep_segment [OF assms, of rest]
    split_Bearer [of tok] split_sep_whole [OF assms]
  by simp_all

text \<open>The tool handler on an object, and the endpoint's two ways out of a tool call.\<close>

lemma tool_call_decoded:
  "handle_tool_call env (JObj ps) =
     (case decoded_arguments env ps of
        None \<Rightarrow>
          Inr (JObj [(''isError'', JBool True),
                     (''content'', text_content ''Invalid arguments: expected object or JSON string.'')])
      | Some decoded \<Rightarrow>
          (if field ps ''name'' JNull = JStr ''forecast_time_series'' then
             (case forecast_time_series env decoded of
                Inl e \<Rightarrow> Inl e
              | Inr data \<Rightarrow> Inr (JObj [(''content'', text_content (json_dumps env data))]))
           else
             Inr (JObj [(''isError'', JBool True),
                        (''content'', text_content (''Tool not found: '' @ py_str env (field ps ''name'' JNull)))])))"
  by (simp add: handle_tool_call_def decoded_arguments_def field_def split: json.splits option.splits)

lemma respond_tools_call:
  assumes "i \<noteq> JNull"
  shows "mcp_respond env (JStr ''tools/call'') params i =
           (Jsonify (result_envelope
              (case handle_tool_call env params of
                 Inr result \<Rightarrow> result
               | Inl e \<Rightarrow> JObj [(''isError'', JBool True),
                                (''content'', text_content (''Internal tool error: '' @ str_exn e))])
              i), 200)"
  using assms by (simp add: mcp_respond_def handle_request_def split: sum.splits)

section \<open>The forecast adapter\<close>

text \<open>The adapter on arguments whose \<^verbatim>\<open>ds\<close> and \<^verbatim>\<open>y\<close> are lists.\<close>

lemma forecast_on_lists:
  assumes "map_of kv ''ds'' = Some (JArr xs)" and "map_of kv ''y'' = Some (JArr ys)"
  shows "forecast_time_series env (JObj kv) =
     (case py_int env (field kv ''periods'' (JInt 10)) of Inl e \<Rightarrow> Inl e | Inr f \<Rightarrow>
      if length xs \<noteq> length ys then Inl (ValueError ''All arrays must be of the same length'')
      else
     (case to_datetime env xs of Inl e \<Rightarrow> Inl e | Inr col \<Rightarrow>
     (case prophet env col ys f of
        Inl e \<Rightarrow> Inr (JObj [(''error'', JStr (str_exn e))])
      | Inr forecast \<Rightarrow>
     (case strftime_opt (col_min col) of Inl e \<Rightarrow> Inl e | Inr start \<Rightarrow>
     (case strftime_opt (col_max col) of Inl e \<Rightarrow> Inl e | Inr stop \<Rightarrow>
        Inr (JObj [(''meta'', JObj [(''f'', JInt f),
                                    (''n_history'', JInt (int (length xs))),
                                    (''start'', JStr start),
                                    (''end'', JStr stop)]),
                   (''forecast'', JArr (map record_of_row forecast))]))))))"
  using assms
  by (simp add: forecast_time_series_def DataFrame_def field_def split: sum.splits)







lemma dec_small: "n < 10 \<Longrightarrow> dec n = [char_of (48 + n)]"
  by (simp add: dec.simps)

lemma dec_large: "10 \<le> n \<Longrightarrow> dec n = dec (n div 10) @ [char_of (48 + n mod 10)]"
  by (subst dec.simps) simp


lemma dec_4:
  assumes "1000 \<le> n" and "n < 10000"
  shows "dec n = [char_of (48 + n div 1000), char_of (48 + n div 100 mod 10),
                  char_of (48 + n div 10 mod 10), char_of (48 + n mod 10)]"
proof -
  have a: "10 \<le> n" "10 \<le> n div 10" "10 \<le> n div 10 div 10" "n div 10 div 10 div 10 < 10"
    using assms by auto
  have b: "n div 10 div 10 = n div 100" "n div 10 div 10 div 10 = n div 1000"
    by (simp_all add: div_mult2_eq [symmetric])
  show ?thesis
    using a b by (simp add: dec_large dec_small)
qed

text \<open>From the year 1000 on the two printers agree.\<close>

lemma zpad_4: "1000 \<le> n \<Longrightarrow> n < 10000 \<Longrightarrow> zpad 4 n = dec n"
  by (simp add: zpad_def dec_4)

lemma dt_strftime_strftime: "valid_fields t \<Longrightarrow> dt_strftime t = strftime t"
  by (cases t) (auto simp: valid_fields_def zpad_4)













section \<open>The claims\<close>

text \<open>
  C2. A request whose body is a JSON object with an \<^verbatim>\<open>id\<close> other than null gets one
  response, a JSON-RPC envelope: it carries \<^verbatim>\<open>jsonrpc\<close> and the request's \<^verbatim>\<open>id\<close>, and
  it has exactly one of the members \<^verbatim>\<open>result\<close> and \<^verbatim>\<open>error\<close>. This holds whatever the
  Authorization header, the method and the parameters are, and whatever the libraries
  do.
\<close>

theorem one_envelope_same_id:
  assumes "get_json req = Inr (JObj kv)" and "map_of kv ''id'' = Some i" and "i \<noteq> JNull"
  shows "\<exists>fields status. mcp_endpoint env req = Inr (Jsonify (JObj fields), status)
           \<and> map_of fields ''id'' = Some i
           \<and> map_of fields ''jsonrpc'' = Some (JStr ''2.0'')
           \<and> ((map_of fields ''result'' = None) \<noteq> (map_of fields ''error'' = None))"
proof -
  have id: "field kv ''id'' JNull = i" using assms(2) by (simp add: field_def)
  show ?thesis
  proof (cases "authorization req = None \<or> (\<exists>h. authorization req = Some h \<and> \<not> startswith h ''Bearer '')")
    case True
    then show ?thesis
      using endpoint_no_header [OF assms(1) True, of env] id by (simp add: error_envelope_def)
  next
    case False
    then obtain h where h: "authorization req = Some h" "startswith h ''Bearer ''" by auto
    show ?thesis
    proof (cases "Some (split_sep CHR '' '' h ! 1) \<noteq> MCP_TOKEN env")
      case True
      then show ?thesis
        using endpoint_token [OF assms(1) h, of env] id by (simp add: error_envelope_def)
    next
      case False
      then have "mcp_endpoint env req =
          Inr (mcp_respond env (field kv ''method'' JNull) (field kv ''params'' (JObj [])) i)"
        using endpoint_token [OF assms(1) h, of env] id by simp
      then show ?thesis
        using respond_envelope [OF assms(3), of env "field kv ''method'' JNull" "field kv ''params'' (JObj [])"]
        by auto
    qed
  qed
qed

theorem one_envelope_same_id_witness:
  "\<exists>fields status.
     mcp_endpoint ex_env (ex_request (JStr ''initialize'') (JObj [])) = Inr (Jsonify (JObj fields), status)
     \<and> map_of fields ''id'' = Some (JInt 7)
     \<and> map_of fields ''jsonrpc'' = Some (JStr ''2.0'')
     \<and> ((map_of fields ''result'' = None) \<noteq> (map_of fields ''error'' = None))"
  by (rule one_envelope_same_id [OF ex_request_body]) simp_all

text \<open>
  C3, as the code has it. A request whose body is a JSON object, whose header passes the
  token check and whose \<^verbatim>\<open>id\<close> is absent or null is answered 204 with an empty body,
  whatever the method and the parameters are.
\<close>

theorem notification_no_content:
  assumes "get_json req = Inr (JObj kv)" and "authorized env req"
    and "map_of kv ''id'' = None \<or> map_of kv ''id'' = Some JNull"
  shows "mcp_endpoint env req = Inr (Text [], 204)"
proof -
  have "field kv ''id'' JNull = JNull" using assms(3) by (auto simp: field_def)
  then show ?thesis
    using endpoint_authorized [OF assms(1,2)] by (simp add: mcp_respond_def)
qed

theorem notification_no_content_witness:
  "mcp_endpoint ex_env (ex_notification (Some ''Bearer s3cret'')) = Inr (Text [], 204)"
proof -
  have a: "authorized ex_env (ex_notification (Some ''Bearer s3cret''))"
    by (simp add: authorized_def ex_notification_def ex_env_def startswith_def py_index_def)
  show ?thesis
    by (rule notification_no_content [OF ex_notification_body a]) simp
qed

text \<open>
  C3 as stated fails: the same notification sent without an Authorization header is
  answered 401 with a JSON-RPC error envelope, since the header is checked before the
  \<^verbatim>\<open>id\<close> is looked at.
\<close>

theorem notification_unauthorized_counterexample:
  "get_json (ex_notification None) =
     Inr (JObj [(''jsonrpc'', JStr ''2.0''), (''method'', JStr ''notifications/initialized'')])
   \<and> mcp_endpoint ex_env (ex_notification None) =
       Inr (Jsonify (JObj [(''jsonrpc'', JStr ''2.0''),
              (''error'', JObj [(''code'', JInt (- 32000)),
                 (''message'', JStr ''Unauthorized: Missing or invalid Authorization header'')]),
              (''id'', JNull)]), 401)"
  by (simp add: ex_notification_def mcp_endpoint_def error_envelope_def)

text \<open>
  C4. Once the body has been decoded to a JSON object, the header is checked before
  anything else is done with the request. No header, an empty header or a header that
  does not start with \<^verbatim>\<open>Bearer \<close> is answered 401 with the code -32000 and the message
  of a missing or invalid header. A header that starts with \<^verbatim>\<open>Bearer \<close> and whose token
  differs from the configured secret (or no secret is configured) is answered 401 with
  the code -32000 and the message of an invalid token. A header whose token is the
  secret goes on to the notification check and the router.
\<close>

theorem auth_checked_before_dispatch:
  assumes "get_json req = Inr (JObj kv)"
  shows "(authorization req = None \<or> (\<exists>h. authorization req = Some h \<and> \<not> startswith h ''Bearer '')
            \<longrightarrow> mcp_endpoint env req =
                  Inr (Jsonify (JObj [(''jsonrpc'', JStr ''2.0''),
                         (''error'', JObj [(''code'', JInt (- 32000)),
                            (''message'', JStr ''Unauthorized: Missing or invalid Authorization header'')]),
                         (''id'', field kv ''id'' JNull)]), 401))
       \<and> (\<forall>h. authorization req = Some h \<and> startswith h ''Bearer ''
                \<and> Some (split_sep CHR '' '' h ! 1) \<noteq> MCP_TOKEN env
            \<longrightarrow> mcp_endpoint env req =
                  Inr (Jsonify (JObj [(''jsonrpc'', JStr ''2.0''),
                         (''error'', JObj [(''code'', JInt (- 32000)),
                            (''message'', JStr ''Unauthorized: Invalid MCP Auth token'')]),
                         (''id'', field kv ''id'' JNull)]), 401))
       \<and> (\<forall>h. authorization req = Some h \<and> startswith h ''Bearer ''
                \<and> Some (split_sep CHR '' '' h ! 1) = MCP_TOKEN env
            \<longrightarrow> mcp_endpoint env req =
                  Inr (mcp_respond env (field kv ''method'' JNull) (field kv ''params'' (JObj []))
                         (field kv ''id'' JNull)))"
proof (intro conjI allI impI)
  assume "authorization req = None \<or> (\<exists>h. authorization req = Some h \<and> \<not> startswith h ''Bearer '')"
  then show "mcp_endpoint env req =
      Inr (Jsonify (JObj [(''jsonrpc'', JStr ''2.0''),
             (''error'', JObj [(''code'', JInt (- 32000)),
                (''message'', JStr ''Unauthorized: Missing or invalid Authorization header'')]),
             (''id'', field kv ''id'' JNull)]), 401)"
    using endpoint_no_header [OF assms, of env] by (simp add: error_envelope_def)
next
  fix h
  assume "authorization req = Some h \<and> startswith h ''Bearer ''
            \<and> Some (split_sep CHR '' '' h ! 1) \<noteq> MCP_TOKEN env"
  then show "mcp_endpoint env req =
      Inr (Jsonify (JObj [(''jsonrpc'', JStr ''2.0''),
             (''error'', JObj [(''code'', JInt (- 32000)),
                (''message'', JStr ''Unauthorized: Invalid MCP Auth token'')]),
             (''id'', field kv ''id'' JNull)]), 401)"
    using endpoint_token [OF assms, of h env] by (simp add: error_envelope_def)
next
  fix h
  assume "authorization req = Some h \<and> startswith h ''Bearer ''
            \<and> Some (split_sep CHR '' '' h ! 1) = MCP_TOKEN env"
  then show "mcp_endpoint env req =
      Inr (mcp_respond env (field kv ''method'' JNull) (field kv ''params'' (JObj []))
             (field kv ''id'' JNull))"
    using endpoint_token [OF assms, of h env] by simp
qed

theorem auth_checked_before_dispatch_witness:
  "mcp_endpoint ex_env (ex_notification None) =
     Inr (Jsonify (JObj [(''jsonrpc'', JStr ''2.0''),
            (''error'', JObj [(''code'', JInt (- 32000)),
               (''message'', JStr ''Unauthorized: Missing or invalid Authorization header'')]),
            (''id'', JNull)]), 401)
   \<and> mcp_endpoint ex_env (ex_notification (Some ''Bearer guess'')) =
     Inr (Jsonify (JObj [(''jsonrpc'', JStr ''2.0''),
            (''error'', JObj [(''code'', JInt (- 32000)),
               (''message'', JStr ''Unauthorized: Invalid MCP Auth token'')]),
            (''id'', JNull)]), 401)
   \<and> mcp_endpoint ex_env (ex_notification (Some ''Bearer s3cret'')) =
     Inr (mcp_respond ex_env (JStr ''notifications/initialized'') (JObj []) JNull)"
  using auth_checked_before_dispatch [OF ex_notification_body, of None ex_env]
    auth_checked_before_dispatch [OF ex_notification_body, of "Some ''Bearer guess''" ex_env]
    auth_checked_before_dispatch [OF ex_notification_body, of "Some ''Bearer s3cret''" ex_env]
  by (simp add: ex_notification_def ex_env_def startswith_def field_def)

text \<open>
  C5. For an authorized request with an \<^verbatim>\<open>id\<close> whose method is none of \<^verbatim>\<open>initialize\<close>,
  \<^verbatim>\<open>tools/list\<close> and \<^verbatim>\<open>tools/call\<close> (a missing method reads as \<^verbatim>\<open>None\<close>), the router
  raises \<^verbatim>\<open>ValueError\<close> with the message \<^verbatim>\<open>Method not found: \<close> followed by the method,
  and the endpoint answers 200 with the protocol error -32603 whose message is
  \<^verbatim>\<open>Internal error: Method not found: \<close> followed by the method.
\<close>

theorem unknown_method_internal_error:
  assumes "get_json req = Inr (JObj kv)" and "authorized env req"
    and "map_of kv ''id'' = Some i" and "i \<noteq> JNull"
    and "meth = field kv ''method'' JNull"
    and "meth \<noteq> JStr ''initialize''" and "meth \<noteq> JStr ''tools/list''"
    and "meth \<noteq> JStr ''tools/call''"
  shows "handle_request env meth params = Inl (ValueError (''Method not found: '' @ py_str env meth))
       \<and> mcp_endpoint env req =
           Inr (Jsonify (JObj [(''jsonrpc'', JStr ''2.0''),
                               (''error'', JObj [(''code'', JInt (- 32603)),
                                                 (''message'', JStr (''Internal error: Method not found: '' @ py_str env meth))]),
                               (''id'', i)]), 200)"
proof -
  have id: "field kv ''id'' JNull = i" using assms(3) by (simp add: field_def)
  have r: "\<And>ps. handle_request env meth ps = Inl (ValueError (''Method not found: '' @ py_str env meth))"
    using assms(6-8) by (simp add: handle_request_def)
  show ?thesis
    using endpoint_authorized [OF assms(1,2)] id assms(4-8) r
    by (simp add: mcp_respond_def error_envelope_def)
qed

theorem unknown_method_internal_error_witness:
  "handle_request ex_env (JStr ''resources/list'') (JObj []) =
     Inl (ValueError ''Method not found: resources/list'')
   \<and> mcp_endpoint ex_env (ex_request (JStr ''resources/list'') (JObj [])) =
     Inr (Jsonify (JObj [(''jsonrpc'', JStr ''2.0''),
            (''error'', JObj [(''code'', JInt (- 32603)),
               (''message'', JStr ''Internal error: Method not found: resources/list'')]),
            (''id'', JInt 7)]), 200)"
  using unknown_method_internal_error [OF ex_request_body ex_request_authorized,
      where i = "JInt 7" and meth = "JStr ''resources/list''" and params = "JObj []"]
  by (simp add: field_def)

text \<open>
  C6, as the code has it. For an authorized \<^verbatim>\<open>tools/call\<close> request with an \<^verbatim>\<open>id\<close>, whose
  params are an object and whose arguments are not a string that fails to decode, a
  tool name other than \<^verbatim>\<open>forecast_time_series\<close> (a missing name reads as \<^verbatim>\<open>None\<close>) gives
  the tool result with \<^verbatim>\<open>isError\<close> true and the text \<^verbatim>\<open>Tool not found: \<close> followed by
  the name, inside the \<^verbatim>\<open>result\<close> of a JSON-RPC envelope answered 200.
\<close>

theorem tool_not_found:
  assumes "get_json req = Inr (JObj kv)" and "authorized env req"
    and "map_of kv ''id'' = Some i" and "i \<noteq> JNull"
    and "map_of kv ''method'' = Some (JStr ''tools/call'')"
    and "map_of kv ''params'' = Some (JObj ps)"
    and "decoded_arguments env ps \<noteq> None"
    and "name = field ps ''name'' JNull"
    and "name \<noteq> JStr ''forecast_time_series''"
  shows "handle_tool_call env (JObj ps) =
           Inr (JObj [(''isError'', JBool True),
                      (''content'', JArr [JObj [(''type'', JStr ''text''),
                                                (''text'', JStr (''Tool not found: '' @ py_str env name))]])])
       \<and> mcp_endpoint env req =
           Inr (Jsonify (JObj [(''jsonrpc'', JStr ''2.0''),
                  (''result'', JObj [(''isError'', JBool True),
                      (''content'', JArr [JObj [(''type'', JStr ''text''),
                                                (''text'', JStr (''Tool not found: '' @ py_str env name))]])]),
                  (''id'', i)]), 200)"
proof -
  have h: "handle_tool_call env (JObj ps) =
           Inr (JObj [(''isError'', JBool True),
                      (''content'', JArr [JObj [(''type'', JStr ''text''),
                                                (''text'', JStr (''Tool not found: '' @ py_str env name))]])])"
    using assms(7-9) by (auto simp: tool_call_decoded text_content_def)
  have f: "field kv ''id'' JNull = i" "field kv ''method'' JNull = JStr ''tools/call''"
    "field kv ''params'' (JObj []) = JObj ps"
    using assms(3,5,6) by (simp_all add: field_def)
  show ?thesis
    using h endpoint_authorized [OF assms(1,2)] f respond_tools_call [OF assms(4), of env "JObj ps"]
    by (simp add: result_envelope_def)
qed

theorem tool_not_found_witness:
  "handle_tool_call ex_env (JObj [(''name'', JStr ''nope''), (''arguments'', JStr ''{}'')]) =
           Inr (JObj [(''isError'', JBool True),
                      (''content'', JArr [JObj [(''type'', JStr ''text''),
                                                (''text'', JStr ''Tool not found: nope'')]])])
       \<and> mcp_endpoint ex_env (ex_call (JStr ''nope'') (JStr ''{}'')) =
           Inr (Jsonify (JObj [(''jsonrpc'', JStr ''2.0''),
                  (''result'', JObj [(''isError'', JBool True),
                      (''content'', JArr [JObj [(''type'', JStr ''text''),
                                                (''text'', JStr ''Tool not found: nope'')]])]),
                  (''id'', JInt 7)]), 200)"
  using tool_not_found [OF ex_request_body ex_request_authorized, where i = "JInt 7"
      and ps = "[(''name'', JStr ''nope''), (''arguments'', JStr ''{}'')]" and name = "JStr ''nope''"
      and ?method1 = "JStr ''tools/call''"]
  by (simp add: field_def decoded_arguments_def ex_env_def ex_loads_def ex_call_def)

text \<open>
  C6 as stated fails: the arguments are decoded before the name is looked up, so an
  unknown tool called with a string that is not JSON is answered with the text about
  invalid arguments, not with \<^verbatim>\<open>Tool not found\<close>.
\<close>

theorem tool_not_found_counterexample:
  "handle_tool_call ex_env (JObj [(''name'', JStr ''nope''), (''arguments'', JStr ''{bad'')]) =
           Inr (JObj [(''isError'', JBool True),
                      (''content'', JArr [JObj [(''type'', JStr ''text''),
                          (''text'', JStr ''Invalid arguments: expected object or JSON string.'')]])])
       \<and> mcp_endpoint ex_env (ex_call (JStr ''nope'') (JStr ''{bad'')) =
           Inr (Jsonify (JObj [(''jsonrpc'', JStr ''2.0''),
                  (''result'', JObj [(''isError'', JBool True),
                      (''content'', JArr [JObj [(''type'', JStr ''text''),
                          (''text'', JStr ''Invalid arguments: expected object or JSON string.'')]])]),
                  (''id'', JInt 7)]), 200)"
proof -
  have h: "handle_tool_call ex_env (JObj [(''name'', JStr ''nope''), (''arguments'', JStr ''{bad'')]) =
           Inr (JObj [(''isError'', JBool True),
                      (''content'', JArr [JObj [(''type'', JStr ''text''),
                          (''text'', JStr ''Invalid arguments: expected object or JSON string.'')]])])"
    by (simp add: handle_tool_call_def ex_env_def ex_loads_def text_content_def)
  show ?thesis
    using h endpoint_authorized [OF ex_request_body ex_request_authorized,
        of "JStr ''tools/call''" "JObj [(''name'', JStr ''nope''), (''arguments'', JStr ''{bad'')]"]
      respond_tools_call [of "JInt 7" ex_env "JObj [(''name'', JStr ''nope''), (''arguments'', JStr ''{bad'')]"]
    by (simp add: ex_call_def field_def result_envelope_def)
qed

text \<open>
  C7. Whatever the params and the environment, \<^verbatim>\<open>tools/list\<close> returns the object whose
  \<^verbatim>\<open>tools\<close> member is a list of one descriptor. The descriptor is named
  \<^verbatim>\<open>forecast_time_series\<close>; its input schema is of type object with the properties
  \<^verbatim>\<open>ds\<close> (an array of strings), \<^verbatim>\<open>y\<close> (an array of numbers) and \<^verbatim>\<open>periods\<close> (an integer
  with the default 10); \<^verbatim>\<open>ds\<close> and \<^verbatim>\<open>y\<close> are required, and additional properties are
  not allowed.
\<close>

theorem tools_list_one_descriptor:
  "\<exists>tool. handle_request env (JStr ''tools/list'') params = Inr (JObj [(''tools'', JArr [tool])])
     \<and> json_path tool [''name''] = Some (JStr ''forecast_time_series'')
     \<and> json_path tool [''inputSchema'', ''type''] = Some (JStr ''object'')
     \<and> map_option (\<lambda>p. case p of JObj kv \<Rightarrow> map fst kv | _ \<Rightarrow> [])
          (json_path tool [''inputSchema'', ''properties'']) = Some [''ds'', ''y'', ''periods'']
     \<and> json_path tool [''inputSchema'', ''properties'', ''ds'', ''type''] = Some (JStr ''array'')
     \<and> json_path tool [''inputSchema'', ''properties'', ''ds'', ''items'', ''type''] = Some (JStr ''string'')
     \<and> json_path tool [''inputSchema'', ''properties'', ''y'', ''type''] = Some (JStr ''array'')
     \<and> json_path tool [''inputSchema'', ''properties'', ''y'', ''items'', ''type''] = Some (JStr ''number'')
     \<and> json_path tool [''inputSchema'', ''properties'', ''periods'', ''type''] = Some (JStr ''integer'')
     \<and> json_path tool [''inputSchema'', ''properties'', ''periods'', ''default''] = Some (JInt 10)
     \<and> json_path tool [''inputSchema'', ''required''] = Some (JArr [JStr ''ds'', JStr ''y''])
     \<and> json_path tool [''inputSchema'', ''additionalProperties''] = Some (JBool False)"
  by (simp add: handle_request_def handle_tools_list_def)

theorem tools_list_one_descriptor_witness:
  "\<exists>tool. handle_request ex_env (JStr ''tools/list'') (JObj [(''cursor'', JStr ''next'')]) =
       Inr (JObj [(''tools'', JArr [tool])])
     \<and> json_path tool [''name''] = Some (JStr ''forecast_time_series'')
     \<and> json_path tool [''inputSchema'', ''required''] = Some (JArr [JStr ''ds'', JStr ''y''])
     \<and> json_path tool [''inputSchema'', ''properties'', ''periods'', ''default''] = Some (JInt 10)"
  using tools_list_one_descriptor [of ex_env "JObj [(''cursor'', JStr ''next'')]"]
  by blast

text \<open>
  C8. Whatever the params and the environment, \<^verbatim>\<open>initialize\<close> returns the same
  descriptor: the protocol version, the server's name and version, and the capabilities
  with an empty \<^verbatim>\<open>tools\<close> entry. The params are not read. At the endpoint the descriptor
  is the \<^verbatim>\<open>result\<close> of the envelope answered 200, unless the request has no \<^verbatim>\<open>id\<close>.
\<close>

theorem initialize_fixed:
  "handle_request env (JStr ''initialize'') params =
     Inr (JObj [(''protocolVersion'', JStr ''2024-11-05''),
                (''serverInfo'', JObj [(''name'', JStr ''prophet_mcp''), (''version'', JStr ''0.1.0'')]),
                (''capabilities'', JObj [(''tools'', JObj [])])])
   \<and> mcp_respond env (JStr ''initialize'') params i =
       (if i = JNull then (Text [], 204)
        else (Jsonify (JObj [(''jsonrpc'', JStr ''2.0''),
                (''result'', JObj [(''protocolVersion'', JStr ''2024-11-05''),
                   (''serverInfo'', JObj [(''name'', JStr ''prophet_mcp''), (''version'', JStr ''0.1.0'')]),
                   (''capabilities'', JObj [(''tools'', JObj [])])]),
                (''id'', i)]), 200))"
  by (simp add: handle_request_def handle_initialize_def mcp_respond_def result_envelope_def)

theorem initialize_fixed_witness:
  "handle_request ex_env (JStr ''initialize'') (JArr [JInt 1]) =
     handle_request ex_env (JStr ''initialize'') (JObj [(''protocolVersion'', JStr ''1999'')])"
  using initialize_fixed [of ex_env "JArr [JInt 1]"]
    initialize_fixed [of ex_env "JObj [(''protocolVersion'', JStr ''1999'')]"]
  by simp

text \<open>
  C9. The token is the second segment of the header split at single spaces. For a
  header \<^verbatim>\<open>Bearer \<close>, a token without a space, a space and any rest, the index 1 of the
  split is the token; if the token is the configured secret the request passes the check
  and is handled as if the rest were not there. For the header \<^verbatim>\<open>Bearer \<close> alone the
  index 1 does not raise: the token is the empty string, which is compared with the
  secret like any other token.
\<close>

theorem second_segment_is_token:
  assumes "get_json req = Inr (JObj kv)" and "CHR '' '' \<notin> set tok"
    and "header = ''Bearer '' @ tok @ '' '' @ rest"
  shows "py_index (split_sep CHR '' '' header) 1 = Inr tok
       \<and> (MCP_TOKEN env = Some tok \<longrightarrow>
            authorized env (req\<lparr>authorization := Some header\<rparr>)
            \<and> mcp_endpoint env (req\<lparr>authorization := Some header\<rparr>) =
                Inr (mcp_respond env (field kv ''method'' JNull) (field kv ''params'' (JObj []))
                       (field kv ''id'' JNull)))
       \<and> py_index (split_sep CHR '' '' ''Bearer '') 1 = Inr []
       \<and> mcp_endpoint env (req\<lparr>authorization := Some ''Bearer ''\<rparr>) =
           (if MCP_TOKEN env = Some [] then
              Inr (mcp_respond env (field kv ''method'' JNull) (field kv ''params'' (JObj []))
                     (field kv ''id'' JNull))
            else
              Inr (Jsonify (JObj [(''jsonrpc'', JStr ''2.0''),
                     (''error'', JObj [(''code'', JInt (- 32000)),
                        (''message'', JStr ''Unauthorized: Invalid MCP Auth token'')]),
                     (''id'', field kv ''id'' JNull)]), 401))"
proof -
  have sp: "split_sep CHR '' '' header = ''Bearer'' # tok # split_sep CHR '' '' rest"
    using split_Bearer_token(1) [OF assms(2)] assms(3) by simp
  have sw: "startswith header ''Bearer ''"
    using assms(3) by (simp add: startswith_def)
  have tok: "py_index (split_sep CHR '' '' header) 1 = Inr tok"
    using sp by (simp add: py_index_def)
  have body: "\<And>h. get_json (req\<lparr>authorization := Some h\<rparr>) = Inr (JObj kv)"
    using assms(1) by simp
  have auth: "authorized env (req\<lparr>authorization := Some header\<rparr>)" if "MCP_TOKEN env = Some tok"
    using that sw tok by (simp add: authorized_def)
  have empty: "split_sep CHR '' '' ''Bearer '' = [''Bearer'', []]"
    by simp
  have e1: "py_index (split_sep CHR '' '' ''Bearer '') 1 = Inr []"
    by (simp add: py_index_def)
  have e2: "mcp_endpoint env (req\<lparr>authorization := Some ''Bearer ''\<rparr>) =
           (if MCP_TOKEN env = Some [] then
              Inr (mcp_respond env (field kv ''method'' JNull) (field kv ''params'' (JObj []))
                     (field kv ''id'' JNull))
            else
              Inr (Jsonify (JObj [(''jsonrpc'', JStr ''2.0''),
                     (''error'', JObj [(''code'', JInt (- 32000)),
                        (''message'', JStr ''Unauthorized: Invalid MCP Auth token'')]),
                     (''id'', field kv ''id'' JNull)]), 401))"
    using endpoint_token [OF body, of "''Bearer ''" "''Bearer ''" env] empty
    by (auto simp: startswith_def error_envelope_def)
  show ?thesis
    using tok auth endpoint_authorized [OF body, of env header] e1 e2 by blast
qed

theorem second_segment_is_token_witness:
  "py_index (split_sep CHR '' '' ''Bearer s3cret and more words'') 1 = Inr ''s3cret''
   \<and> mcp_endpoint ex_env ((ex_request (JStr ''initialize'') (JObj []))
         \<lparr>authorization := Some ''Bearer s3cret and more words''\<rparr>) =
       Inr (mcp_respond ex_env (JStr ''initialize'') (JObj []) (JInt 7))
   \<and> py_index (split_sep CHR '' '' ''Bearer '') 1 = Inr []
   \<and> mcp_endpoint ex_env ((ex_request (JStr ''initialize'') (JObj []))\<lparr>authorization := Some ''Bearer ''\<rparr>) =
       Inr (Jsonify (JObj [(''jsonrpc'', JStr ''2.0''),
              (''error'', JObj [(''code'', JInt (- 32000)),
                 (''message'', JStr ''Unauthorized: Invalid MCP Auth token'')]),
              (''id'', JInt 7)]), 401)"
  using second_segment_is_token [OF ex_request_body, where tok = "''s3cret''" and rest = "''and more words''"
      and header = "''Bearer s3cret and more words''" and env = ex_env
      and method1 = "JStr ''initialize''" and params1 = "JObj []"]
  by (simp add: field_def ex_env_def)




text \<open>
  C10. Take a call of \<^verbatim>\<open>forecast_time_series\<close> whose arguments hold lists \<^verbatim>\<open>ds\<close> and
  \<^verbatim>\<open>y\<close>, where \<^verbatim>\<open>pd.to_datetime\<close> raises on \<^verbatim>\<open>ds\<close>. The adapter raises: the exception
  of the conversion, unless \<^verbatim>\<open>int(periods)\<close> or the frame of two lists of different
  lengths raised before it. It never returns \<^verbatim>\<open>{"error": ...}\<close>. The exception passes
  through the tool handler, and the endpoint answers a request with an \<^verbatim>\<open>id\<close> 200 with
  the tool result whose \<^verbatim>\<open>isError\<close> is true and whose text is
  \<^verbatim>\<open>Internal tool error: \<close> followed by the exception's message.
\<close>

theorem unparseable_date_raises:
  assumes "decoded_arguments env ps = Some (JObj kv)"
    and "field ps ''name'' JNull = JStr ''forecast_time_series''"
    and "map_of kv ''ds'' = Some (JArr xs)" and "map_of kv ''y'' = Some (JArr ys)"
    and "to_datetime env xs = Inl e"
    and "raised = (case py_int env (field kv ''periods'' (JInt 10)) of
                     Inl e0 \<Rightarrow> e0
                   | Inr f \<Rightarrow> if length xs = length ys then e
                              else ValueError ''All arrays must be of the same length'')"
  shows "forecast_time_series env (JObj kv) = Inl raised
       \<and> handle_tool_call env (JObj ps) = Inl raised
       \<and> (i \<noteq> JNull \<longrightarrow>
            mcp_respond env (JStr ''tools/call'') (JObj ps) i =
              (Jsonify (JObj [(''jsonrpc'', JStr ''2.0''),
                 (''result'', JObj [(''isError'', JBool True),
                     (''content'', JArr [JObj [(''type'', JStr ''text''),
                         (''text'', JStr (''Internal tool error: '' @ str_exn raised))]])]),
                 (''id'', i)]), 200))"
proof -
  have f: "forecast_time_series env (JObj kv) = Inl raised"
    using assms(5,6) by (simp add: forecast_on_lists [OF assms(3,4)] split: sum.splits)
  have h: "handle_tool_call env (JObj ps) = Inl raised"
    using f assms(1,2) by (simp add: tool_call_decoded)
  show ?thesis
    using f h respond_tools_call [of i env "JObj ps"]
    by (simp add: result_envelope_def text_content_def)
qed

theorem unparseable_date_raises_witness:
  "forecast_time_series ex_env
       (JObj [(''ds'', JArr [JStr ''2021-01-01'', JStr ''yesterday'']), (''y'', JArr [JInt 1, JInt 2])]) =
     Inl (LibError ''Unknown datetime string format'')
   \<and> mcp_respond ex_env (JStr ''tools/call'')
       (JObj [(''name'', JStr ''forecast_time_series''),
              (''arguments'', JObj [(''ds'', JArr [JStr ''2021-01-01'', JStr ''yesterday'']),
                                    (''y'', JArr [JInt 1, JInt 2])])]) (JInt 7) =
       (Jsonify (JObj [(''jsonrpc'', JStr ''2.0''),
          (''result'', JObj [(''isError'', JBool True),
              (''content'', JArr [JObj [(''type'', JStr ''text''),
                  (''text'', JStr ''Internal tool error: Unknown datetime string format'')]])]),
          (''id'', JInt 7)]), 200)"
proof -
  have d: "to_datetime ex_env [JStr ''2021-01-01'', JStr ''yesterday''] =
             Inl (LibError ''Unknown datetime string format'')"
    by (simp add: ex_env_def ex_to_datetime_def ex_date_def)
  show ?thesis
    using unparseable_date_raises [where env = ex_env and e = "LibError ''Unknown datetime string format''"
      and ps = "[(''name'', JStr ''forecast_time_series''),
              (''arguments'', JObj [(''ds'', JArr [JStr ''2021-01-01'', JStr ''yesterday'']),
                                    (''y'', JArr [JInt 1, JInt 2])])]"
      and kv = "[(''ds'', JArr [JStr ''2021-01-01'', JStr ''yesterday'']), (''y'', JArr [JInt 1, JInt 2])]"
      and xs = "[JStr ''2021-01-01'', JStr ''yesterday'']" and ys = "[JInt 1, JInt 2]"
      and i = "JInt 7" and raised = "LibError ''Unknown datetime string format''", OF _ _ _ _ d]
    by (simp add: decoded_arguments_def field_def)
qed

end
